theory Spec2Isabelle
  imports Complex_Main "HOL-Library.AList"
begin

section \<open>Python values used by the resource monitor\<close>

text \<open>
  The monitor of \<^verbatim>\<open>trains/utilities/resource_monitor.py\<close> works on Python floats and
  dictionaries with string keys. Clock readings and metric values are modelled by exact
  reals; the estimate of line 91, whose integer part is reported, is computed in IEEE 754
  double precision as the source computes it (\<open>float_round\<close> below). Dictionaries are
  association lists in insertion order with distinct keys: \<open>d[k] = v\<close> is
  \<open>AList.update\<close>, which overwrites in place or appends, and \<open>d.get(k, default)\<close> is
  \<open>dict_get\<close>. Every exception of the source is a value of type \<open>error\<close>; a float
  division by zero raises \<open>ZeroDivisionError\<close>, an integer too large for a float and
  \<open>int\<close> of an infinite float raise \<open>OverflowError\<close>.
\<close>

datatype error = ZeroDivisionError | OverflowError | ProviderError

type_synonym dict = "(string \<times> real) list"

definition dict_get :: "dict \<Rightarrow> string \<Rightarrow> real \<Rightarrow> real" where
  "dict_get d k dflt = (case map_of d k of None \<Rightarrow> dflt | Some v \<Rightarrow> v)"

definition dict_set :: "string \<Rightarrow> real \<Rightarrow> dict \<Rightarrow> dict" where
  "dict_set k v d = AList.update k v d"

text \<open>\<open>s.startswith(p)\<close> and \<open>s.endswith(p)\<close>.\<close>

fun startswith :: "string \<Rightarrow> string \<Rightarrow> bool" where
  "startswith s [] = True"
| "startswith [] (p # ps) = False"
| "startswith (c # s) (p # ps) = (c = p \<and> startswith s ps)"

definition endswith :: "string \<Rightarrow> string \<Rightarrow> bool" where
  "endswith s p = startswith (rev s) (rev p)"

text \<open>\<open>int(x)\<close> of a float truncates towards zero.\<close>

definition py_int :: "real \<Rightarrow> int" where
  "py_int x = (if 0 \<le> x then \<lfloor>x\<rfloor> else \<lceil>x\<rceil>)"

text \<open>
  \<open>round(x)\<close> with one argument, as Python 3 computes it: the nearest integer, a tie going
  to the even neighbour. (Python 2 sends a tie away from zero; the two agree on every
  argument that is not exactly halfway between two integers.)
\<close>

definition py_round :: "real \<Rightarrow> int" where
  "py_round x =
     (let f = \<lfloor>x\<rfloor>; r = x - of_int f
      in if r < 1 / 2 then f else if 1 / 2 < r then f + 1 else if even f then f else f + 1)"

text \<open>
  Double precision. \<open>bit_length\<close> is \<open>int.bit_length\<close>. \<open>float_exponent x\<close> is the
  \<open>e\<close> with \<open>2^e \<le> |x| < 2^(e+1)\<close>. \<open>float_round x\<close> is the double nearest to
  \<open>x\<close>, a tie going to the even significand: the significand has 53 bits, and below
  \<open>2^-1022\<close> the spacing stays \<open>2^-1074\<close>. The exponent is not bounded above here; a
  result of magnitude \<open>2^1024\<close> or more is an overflow, which the callers test. Every
  float operation of the source (the literal \<open>0.95\<close>, the conversion of an \<open>int\<close>, a
  product, a quotient) is the exact result rounded by \<open>float_round\<close>.
\<close>

fun bit_length :: "nat \<Rightarrow> nat" where
  "bit_length n = (if n = 0 then 0 else Suc (bit_length (n div 2)))"

declare bit_length.simps [simp del]

definition pow2 :: "int \<Rightarrow> real" where
  "pow2 k = (if 0 \<le> k then 2 ^ nat k else 1 / 2 ^ nat (- k))"

definition float_exponent :: "real \<Rightarrow> int" where
  "float_exponent x =
     (let a = \<bar>x\<bar>
      in if 1 \<le> a then int (bit_length (nat \<lfloor>a\<rfloor>)) - 1
         else (let f = int (bit_length (nat \<lfloor>1 / a\<rfloor>)) - 1
               in if a * pow2 f = 1 then - f else - f - 1))"

definition float_round :: "real \<Rightarrow> real" where
  "float_round x =
     (if x = 0 then 0
      else (let ulp = pow2 (max (float_exponent x) (- 1022) - 52)
            in of_int (py_round (x / ulp)) * ulp))"

text \<open>The conversion of an \<open>int\<close> operand of a float operation.\<close>

definition float_of_int :: "int \<Rightarrow> error + real" where
  "float_of_int n =
     (let x = float_round (of_int n)
      in if 2 ^ 1024 \<le> \<bar>x\<bar> then Inl OverflowError else Inr x)"

text \<open>
  Lines 91 and 92: \<open>int(0.95 * di * t / dt)\<close> for the interval \<open>(di, dt)\<close> and the stall
  \<open>t\<close>, evaluated from left to right. Each \<open>int\<close> operand is converted when its
  operation is reached; the division raises on a zero divisor; a product that overflows is
  infinite, stays infinite in the division, and \<open>int\<close> of it raises.
\<close>

definition damped_estimate :: "int \<Rightarrow> int \<Rightarrow> int \<Rightarrow> error + int" where
  "damped_estimate di t dt =
     (case float_of_int di of Inl e \<Rightarrow> Inl e | Inr a \<Rightarrow>
      (case float_of_int t of Inl e \<Rightarrow> Inl e | Inr b \<Rightarrow>
       (case float_of_int dt of Inl e \<Rightarrow> Inl e | Inr c \<Rightarrow>
          if c = 0 then Inl ZeroDivisionError
          else (let x = float_round (float_round (float_round (95 / 100) * a) * b)
                in if 2 ^ 1024 \<le> \<bar>x\<bar> then Inl OverflowError
                   else Inr (py_int (float_round (x / c)))))))"

text \<open>The decimal rendering of \<open>"%d" % i\<close> for an index \<open>i\<close> of \<open>enumerate\<close>.\<close>

fun str_nat :: "nat \<Rightarrow> string" where
  "str_nat n =
     (if n < 10 then [''0123456789'' ! n]
      else str_nat (n div 10) @ [''0123456789'' ! (n mod 10)])"

declare str_nat.simps [simp del]

section \<open>The monitor object\<close>

text \<open>
  The fields of \<open>ResourceMonitor\<close>. \<open>gpustat\<close> is the truth value of \<open>self._gpustat\<close>
  (the module, or \<open>None\<close>). The logger of the task is an output: \<open>console\<close> collects the
  messages written to it and \<open>scalars\<close> the calls of \<open>report_scalar\<close>, each as
  (title, series, iteration, value).
\<close>

record monitor =
  sample_frequency :: real
  report_frequency :: real
  first_report_sec :: real
  wait_for_first_iteration :: real
  num_readouts :: nat
  readouts :: dict
  previous_readouts :: dict
  previous_readouts_ts :: real
  gpustat_fail :: nat
  gpustat :: bool
  console :: "string list"
  scalars :: "(string \<times> string \<times> int \<times> real) list"

definition title_machine :: string where
  "title_machine = '':monitor:machine''"

definition title_gpu :: string where
  "title_gpu = '':monitor:gpu''"

definition msg_no_gpu :: string where
  "msg_no_gpu = ''TRAINS Monitor: GPU monitoring is not available, run \"pip install gpustat\"''"

definition msg_gpu_off :: string where
  "msg_gpu_off = ''TRAINS Monitor: GPU monitoring failed getting GPU reading, switching off GPU monitoring''"

definition msg_fallback :: string where
  "msg_fallback = ''TRAINS Monitor: Could not detect iteration reporting, falling back to iterations as seconds-from-start''"

text \<open>
  \<open>__init__\<close>: \<open>now\<close> is the reading of \<open>time()\<close>, \<open>have_gpustat\<close> tells whether the import of
  gpustat succeeded. \<open>first_report_sec or report_frequency_sec\<close> takes the report frequency
  when the first argument is \<open>None\<close> or zero.
\<close>

definition init :: "real \<Rightarrow> real \<Rightarrow> real option \<Rightarrow> real \<Rightarrow> real \<Rightarrow> bool \<Rightarrow> monitor" where
  "init sample_frequency_per_sec report_frequency_sec first_report wait_sec now have_gpustat =
     \<lparr> sample_frequency = sample_frequency_per_sec,
       report_frequency = report_frequency_sec,
       first_report_sec =
         (case first_report of None \<Rightarrow> report_frequency_sec
          | Some f \<Rightarrow> if f = 0 then report_frequency_sec else f),
       wait_for_first_iteration = wait_sec,
       num_readouts = 0,
       readouts = [],
       previous_readouts = [],
       previous_readouts_ts = now,
       gpustat_fail = 0,
       gpustat = have_gpustat,
       console = (if have_gpustat then [] else [msg_no_gpu]),
       scalars = [] \<rparr>"

section \<open>Raw snapshot: \<open>_machine_stats\<close>\<close>

text \<open>
  One call of \<open>_machine_stats\<close> asks psutil and gpustat for their readings. A \<open>probe\<close>
  holds what each provider answers when it is asked in this call: a value, or the exception
  it raises. Byte counts are given as reals, and \<open>/\<close> is true division.
\<close>

record gpu =
  temperature_gpu :: real
  utilization_gpu :: real
  memory_used :: real
  memory_total :: real

record probe =
  cpu_percent :: "error + real list"
  virtual_memory :: "error + real \<times> real"
  disk_usage_percent :: "error + real"
  sensors_temperatures :: "(error + (string \<times> real list) list) option"
  net_io_counters :: "error + real \<times> real"
  disk_io_counters :: "error + real \<times> real"
  new_query :: "error + gpu list"

definition bytes_to_megabytes :: "real \<Rightarrow> real" where
  "bytes_to_megabytes x = x / 1048576"

text \<open>
  Lines 143 to 170: the host readings. The dictionary is local until it is returned, so an
  exception of a provider leaves nothing behind. \<open>virtual_memory\<close> is (used, available),
  \<open>net_io_counters\<close> is (bytes sent, bytes received), \<open>disk_io_counters\<close> is (read bytes,
  write bytes); \<open>sensors_temperatures\<close> is \<open>None\<close> when psutil has no such attribute.
\<close>

definition host_stats :: "probe \<Rightarrow> error + dict" where
  "host_stats p =
     (case cpu_percent p of Inl e \<Rightarrow> Inl e | Inr cpu_usage \<Rightarrow>
      if cpu_usage = [] then Inl ZeroDivisionError else
      (case virtual_memory p of Inl e \<Rightarrow> Inl e | Inr (used, available) \<Rightarrow>
       (case disk_usage_percent p of Inl e \<Rightarrow> Inl e | Inr disk_use_percentage \<Rightarrow>
        (case (case sensors_temperatures p of None \<Rightarrow> Inr [] | Some r \<Rightarrow> r) of
           Inl e \<Rightarrow> Inl e
         | Inr sensor_stat \<Rightarrow>
           (case net_io_counters p of Inl e \<Rightarrow> Inl e | Inr (bytes_sent, bytes_recv) \<Rightarrow>
            (case disk_io_counters p of Inl e \<Rightarrow> Inl e | Inr (read_bytes, write_bytes) \<Rightarrow>
               (let stats = [(''cpu_usage'', sum_list cpu_usage / real (length cpu_usage))];
                    stats = dict_set ''memory_used_gb'' (bytes_to_megabytes used / 1024) stats;
                    stats = dict_set ''memory_free_gb'' (bytes_to_megabytes available / 1024) stats;
                    stats = dict_set ''disk_free_percent'' (100 - disk_use_percentage) stats;
                    stats = (case map_of sensor_stat ''coretemp'' of
                               Some (t # ts) \<Rightarrow> dict_set ''cpu_temperature'' (fold max ts t) stats
                             | _ \<Rightarrow> stats);
                    stats = dict_set ''network_tx_mbs'' (bytes_to_megabytes bytes_sent) stats;
                    stats = dict_set ''network_rx_mbs'' (bytes_to_megabytes bytes_recv) stats;
                    stats = dict_set ''io_read_mbs'' (bytes_to_megabytes read_bytes) stats;
                    stats = dict_set ''io_write_mbs'' (bytes_to_megabytes write_bytes) stats
                in Inr stats)))))))"

definition gpu_key :: "nat \<Rightarrow> string \<Rightarrow> string" where
  "gpu_key i name = ''gpu_'' @ str_nat i @ ''_'' @ name"

text \<open>
  Lines 176 to 182, the loop over \<open>enumerate(gpu_stat.gpus)\<close>. The dictionary is updated in
  place, so when \<open>memory.total\<close> is zero and the division raises, the keys written so far
  stay. The result is the exception, if any, and the dictionary.
\<close>

fun gpu_loop :: "nat \<Rightarrow> gpu list \<Rightarrow> dict \<Rightarrow> error option \<times> dict" where
  "gpu_loop i [] stats = (None, stats)"
| "gpu_loop i (g # gs) stats =
     (let stats = dict_set (gpu_key i ''temperature'') (temperature_gpu g) stats;
          stats = dict_set (gpu_key i ''utilization'') (utilization_gpu g) stats
      in if memory_total g = 0 then (Some ZeroDivisionError, stats)
         else
           (let stats = dict_set (gpu_key i ''mem_usage'') (100 * memory_used g / memory_total g) stats;
                stats = dict_set (gpu_key i ''mem_free_gb'') ((memory_total g - memory_used g) / 1024) stats;
                stats = dict_set (gpu_key i ''mem_used_gb'') (memory_used g / 1024) stats
            in gpu_loop (i + 1) gs stats))"

text \<open>Lines 183 to 189, the handler of a failed GPU reading.\<close>

definition gpu_failed :: "monitor \<Rightarrow> monitor" where
  "gpu_failed s =
     (let s = s\<lparr>gpustat_fail := gpustat_fail s + 1\<rparr>
      in if 3 \<le> gpustat_fail s
         then s\<lparr>console := console s @ [msg_gpu_off], gpustat := False\<rparr>
         else s)"

definition machine_stats :: "probe \<Rightarrow> monitor \<Rightarrow> (error + dict) \<times> monitor" where
  "machine_stats p s =
     (case host_stats p of
        Inl e \<Rightarrow> (Inl e, s)
      | Inr stats \<Rightarrow>
          if gpustat s then
            (case new_query p of
               Inl e \<Rightarrow> (Inr stats, gpu_failed s)
             | Inr gpus \<Rightarrow>
                 (case gpu_loop 0 gpus stats of
                    (None, stats) \<Rightarrow> (Inr stats, s)
                  | (Some e, stats) \<Rightarrow> (Inr stats, gpu_failed s)))
          else (Inr stats, s))"

section \<open>Sample fold: \<open>_update_readouts\<close>\<close>

text \<open>
  Lines 119 to 124, the loop over the items of the snapshot. The accumulator is updated in
  place: when \<open>elapsed\<close> is zero the division of line 122 raises at the first key that ends
  in \<open>_mbs\<close>, and the sums of the keys before it have already been written.
\<close>

fun update_loop :: "real \<Rightarrow> dict \<Rightarrow> (string \<times> real) list \<Rightarrow> dict \<Rightarrow> error option \<times> dict" where
  "update_loop elapsed prev [] acc = (None, acc)"
| "update_loop elapsed prev ((k, v) # rest) acc =
     (if endswith k ''_mbs'' then
        (if elapsed = 0 then (Some ZeroDivisionError, acc)
         else update_loop elapsed prev rest
                (dict_set k (dict_get acc k 0 + (v - dict_get prev k v) / elapsed) acc))
      else update_loop elapsed prev rest (dict_set k (dict_get acc k 0 + v) acc))"

text \<open>
  \<open>_update_readouts\<close>; \<open>t1\<close> and \<open>t2\<close> are the readings of the two calls of \<open>time()\<close>
  in lines 117 and 118. The result is the exception that leaves the method, if any, and
  the monitor as the method leaves it.
\<close>

definition update_readouts :: "probe \<Rightarrow> real \<Rightarrow> real \<Rightarrow> monitor \<Rightarrow> error option \<times> monitor" where
  "update_readouts p t1 t2 s =
     (case machine_stats p s of
        (Inl e, s) \<Rightarrow> (Some e, s)
      | (Inr stats, s) \<Rightarrow>
          (let elapsed = t1 - previous_readouts_ts s;
               s = s\<lparr>previous_readouts_ts := t2\<rparr>
           in case update_loop elapsed (previous_readouts s) stats (readouts s) of
                (Some e, acc) \<Rightarrow> (Some e, s\<lparr>readouts := acc\<rparr>)
              | (None, acc) \<Rightarrow>
                  (None, s\<lparr>readouts := acc,
                            num_readouts := num_readouts s + 1,
                            previous_readouts := stats\<rparr>)))"

text \<open>\<open>_get_average_readouts\<close>: the division is evaluated once for every item.\<close>

definition get_average_readouts :: "monitor \<Rightarrow> error + dict" where
  "get_average_readouts s =
     (if readouts s = [] then Inr []
      else if num_readouts s = 0 then Inl ZeroDivisionError
      else Inr (map (\<lambda>(k, v). (k, v / real (num_readouts s))) (readouts s)))"

definition clear_readouts :: "monitor \<Rightarrow> monitor" where
  "clear_readouts s = s\<lparr>readouts := [], num_readouts := 0\<rparr>"

section \<open>The loop of \<open>_daemon\<close>\<close>

text \<open>
  The local variables of \<open>_daemon\<close>. \<open>fallback_to_sec_as_iterations\<close> is \<open>None\<close>, \<open>True\<close> or
  \<open>False\<close>; \<open>iteration\<close> is unbound until the first report.
\<close>

record locals =
  seconds_since_started :: int
  reported :: nat
  last_iteration :: int
  last_iteration_ts :: int
  last_iteration_interval :: "(int \<times> int) option"
  repeated_iterations :: nat
  fallback_to_sec_as_iterations :: "bool option"
  iteration :: "int option"

definition locals0 :: locals where
  "locals0 =
     \<lparr> seconds_since_started = 0, reported = 0, last_iteration = 0, last_iteration_ts = 0,
       last_iteration_interval = None, repeated_iterations = 0,
       fallback_to_sec_as_iterations = None, iteration = None \<rparr>"

text \<open>Lines 65 to 68: one fold, any exception swallowed.\<close>

definition daemon_sample :: "probe \<Rightarrow> real \<Rightarrow> real \<Rightarrow> monitor \<Rightarrow> monitor" where
  "daemon_sample p t1 t2 s = snd (update_readouts p t1 t2 s)"

text \<open>
  Lines 74 to 80: the decision on the fallback mode. \<open>tensorboard_used\<close> is the answer of
  \<open>IsTensorboardInit.tensorboard_used()\<close>.
\<close>

definition decide_fallback :: "bool \<Rightarrow> locals \<times> monitor \<Rightarrow> locals \<times> monitor" where
  "decide_fallback tensorboard_used ds =
     (case ds of (d, s) \<Rightarrow>
        if fallback_to_sec_as_iterations d = None then
          (if tensorboard_used then (d\<lparr>fallback_to_sec_as_iterations := Some False\<rparr>, s)
           else if wait_for_first_iteration s \<le> of_int (seconds_since_started d)
           then (d\<lparr>fallback_to_sec_as_iterations := Some True\<rparr>,
                 s\<lparr>console := console s @ [msg_fallback]\<rparr>)
           else (d, s))
        else (d, s))"

text \<open>
  Lines 83 to 100: the iteration of this report; \<open>get_last_iteration\<close> is the answer of
  the task. \<open>None\<close> and \<open>False\<close> both take the \<open>else\<close> branch of line 85. The tuple of
  line 96 is never empty, so \<open>if last_iteration_interval\<close> asks whether it is bound. An
  exception of the estimate of lines 91 and 92 leaves the method.
\<close>

definition select_iteration :: "int \<Rightarrow> locals \<Rightarrow> error + int \<times> locals" where
  "select_iteration get_last_iteration d =
     (if fallback_to_sec_as_iterations d = Some True
      then Inr (seconds_since_started d, d)
      else if get_last_iteration = last_iteration d then
        (let d = d\<lparr>repeated_iterations := repeated_iterations d + 1\<rparr>
         in case last_iteration_interval d of
              Some (di, dt) \<Rightarrow>
                (case damped_estimate di (seconds_since_started d - last_iteration_ts d) dt of
                   Inl e \<Rightarrow> Inl e
                 | Inr estimate \<Rightarrow> Inr (get_last_iteration + estimate, d))
            | None \<Rightarrow> Inr (get_last_iteration + 1, d))
      else Inr (get_last_iteration,
                d\<lparr>last_iteration_interval :=
                     Some (get_last_iteration - last_iteration d,
                           seconds_since_started d - last_iteration_ts d),
                   last_iteration_ts := seconds_since_started d,
                   last_iteration := get_last_iteration,
                   repeated_iterations := 0,
                   fallback_to_sec_as_iterations := Some False\<rparr>))"

text \<open>
  Lines 104 to 112: one call of \<open>report_scalar\<close> for every average. An exception of the
  sink is swallowed by the source; the model records the calls.
\<close>

definition report_scalars :: "int \<Rightarrow> dict \<Rightarrow> (string \<times> string \<times> int \<times> real) list" where
  "report_scalars it average_readouts =
     map (\<lambda>(k, v). (if startswith k ''gpu_'' then title_gpu else title_machine, k, it,
                     of_int (py_round (v * 1000)) / 1000))
         average_readouts"

text \<open>
  Lines 70 to 113, one report boundary. \<open>elapsed\<close> is \<open>time() - last_report\<close> of line 72.
  An exception here is not caught: it ends the thread.
\<close>

definition daemon_report :: "real \<Rightarrow> bool \<Rightarrow> int \<Rightarrow> locals \<times> monitor \<Rightarrow> error + locals \<times> monitor" where
  "daemon_report elapsed tensorboard_used get_last_iteration ds =
     (case ds of (d, s) \<Rightarrow>
        (let d = d\<lparr>reported := reported d + 1\<rparr>
         in case get_average_readouts s of
              Inl e \<Rightarrow> Inl e
            | Inr average_readouts \<Rightarrow>
                (let d = d\<lparr>seconds_since_started := seconds_since_started d + py_round elapsed\<rparr>
                 in case decide_fallback tensorboard_used (d, s) of (d, s) \<Rightarrow>
                      (case select_iteration get_last_iteration d of
                         Inl e \<Rightarrow> Inl e
                       | Inr (it, d) \<Rightarrow>
                           (let d = d\<lparr>iteration := Some it\<rparr>
                            in if fallback_to_sec_as_iterations d \<noteq> None
                               then Inr (d, clear_readouts
                                         (s\<lparr>scalars := scalars s @ report_scalars it average_readouts\<rparr>))
                               else Inr (d, s))))))"

text \<open>
  A run of the thread is a sequence of events: \<open>Sample p t1 t2\<close> is one pass of the inner
  loop whose wait timed out, \<open>Report elapsed tb it\<close> is one report boundary. The guard of
  the inner loop, which reads the clock, decides how many samples precede a report; the
  model admits every interleaving. The run ends when the list does (the exit event is set)
  or when a report raises.
\<close>

datatype event = Sample probe real real | Report real bool int

fun daemon_step :: "event \<Rightarrow> locals \<times> monitor \<Rightarrow> error + locals \<times> monitor" where
  "daemon_step (Sample p t1 t2) (d, s) = Inr (d, daemon_sample p t1 t2 s)"
| "daemon_step (Report elapsed tb it) (d, s) = daemon_report elapsed tb it (d, s)"

fun daemon :: "event list \<Rightarrow> locals \<times> monitor \<Rightarrow> error + locals \<times> monitor" where
  "daemon [] ds = Inr ds"
| "daemon (ev # evs) ds =
     (case daemon_step ev ds of Inl e \<Rightarrow> Inl e | Inr ds' \<Rightarrow> daemon evs ds')"

text \<open>The passes of the inner loop between two reports.\<close>

definition samples :: "(probe \<times> real \<times> real) list \<Rightarrow> event list" where
  "samples folds = map (\<lambda>(p, t1, t2). Sample p t1 t2) folds"

section \<open>Example inputs\<close>

text \<open>
  A probe whose host providers all answer and whose GPU query raises, the same probe with
  a failing CPU reading, and a monitor built with the default frequencies (two samples per
  second, a report every 30 seconds, 180 seconds of grace) at clock reading 100 on a machine
  without gpustat.
\<close>

definition example_probe :: probe where
  "example_probe =
     \<lparr> cpu_percent = Inr [10, 30],
       virtual_memory = Inr (2147483648, 1073741824),
       disk_usage_percent = Inr 40,
       sensors_temperatures = None,
       net_io_counters = Inr (1048576, 2097152),
       disk_io_counters = Inr (3145728, 4194304),
       new_query = Inl ProviderError \<rparr>"

definition failing_probe :: probe where
  "failing_probe = example_probe\<lparr>cpu_percent := Inl ProviderError\<rparr>"

definition example_monitor :: monitor where
  "example_monitor = init 2 30 None 180 100 False"

text \<open>The monitor after one successful fold, one second after its construction.\<close>

definition sampled_monitor :: monitor where
  "sampled_monitor = daemon_sample example_probe 101 101 example_monitor"

text \<open>
  The probe of a later fold, two more megabytes sent, and the snapshot it yields.
\<close>

definition later_probe :: probe where
  "later_probe = example_probe\<lparr>net_io_counters := Inr (3145728, 2097152)\<rparr>"

definition later_stats :: dict where
  "later_stats =
     [(''cpu_usage'', 20), (''memory_used_gb'', 2), (''memory_free_gb'', 1),
      (''disk_free_percent'', 60), (''network_tx_mbs'', 3), (''network_rx_mbs'', 2),
      (''io_read_mbs'', 3), (''io_write_mbs'', 4)]"

text \<open>
  One fold and a report while neither tensorboard nor the task has shown an iteration and
  the grace period has not passed.
\<close>

definition unresolved_run :: "error + locals \<times> monitor" where
  "unresolved_run =
     daemon [Sample example_probe 101 101, Report 30 False 0] (locals0, example_monitor)"

text \<open>
  Three reports, 30 seconds apart, of a task that reached iteration 3 before the first
  and has not moved since.
\<close>

definition stalled_run :: "error + locals \<times> monitor" where
  "stalled_run =
     daemon [Report 30 True 3, Report 30 True 3, Report 30 True 3] (locals0, example_monitor)"

text \<open>
  A monitor without gpustat that reports every 0.4 seconds and has no grace period, and
  its first and its first two reports.
\<close>

definition subsecond_monitor :: monitor where
  "subsecond_monitor = init 10 (2 / 5) None 0 100 False"

definition subsecond_run1 :: "error + locals \<times> monitor" where
  "subsecond_run1 = daemon [Report (2 / 5) False 0] (locals0, subsecond_monitor)"

definition subsecond_run2 :: "error + locals \<times> monitor" where
  "subsecond_run2 = daemon [Report (2 / 5) False 0, Report (2 / 5) False 0] (locals0, subsecond_monitor)"

text \<open>
  The default monitor after a first report at 180 seconds with no iteration seen (the
  fallback to seconds is taken), after one more fold and a report 30 seconds later, and
  after a third report.
\<close>

definition seconds_state :: "locals \<times> monitor" where
  "seconds_state = projr (daemon [Report 180 False 0] (locals0, example_monitor))"

definition seconds_later :: "locals \<times> monitor" where
  "seconds_later = projr (daemon [Sample example_probe 281 281, Report 30 False 7] seconds_state)"

definition seconds_last :: "locals \<times> monitor" where
  "seconds_last = projr (daemon_report 30 True 9 seconds_later)"

text \<open>The snapshot that \<open>example_probe\<close> yields when the GPU is not read.\<close>

definition example_stats :: dict where
  "example_stats =
     [(''cpu_usage'', 20), (''memory_used_gb'', 2), (''memory_free_gb'', 1),
      (''disk_free_percent'', 60), (''network_tx_mbs'', 1), (''network_rx_mbs'', 2),
      (''io_read_mbs'', 3), (''io_write_mbs'', 4)]"

text \<open>
  A monitor with gpustat, a probe whose GPU query answers with one device, the monitor
  after one, two and three folds whose GPU query raises, and after a further fold whose
  GPU query would answer.
\<close>

definition gpu_monitor :: monitor where
  "gpu_monitor = init 2 30 None 180 100 True"

definition gpu_probe :: probe where
  "gpu_probe = example_probe\<lparr>new_query := Inr [\<lparr>temperature_gpu = 60, utilization_gpu = 50,
       memory_used = 1024, memory_total = 4096\<rparr>]\<rparr>"

definition gpu_state1 :: monitor where
  "gpu_state1 = daemon_sample example_probe 101 101 gpu_monitor"

definition gpu_state2 :: monitor where
  "gpu_state2 = daemon_sample example_probe 102 102 gpu_state1"

definition gpu_state3 :: monitor where
  "gpu_state3 = daemon_sample example_probe 103 103 gpu_state2"

definition gpu_off_later :: monitor where
  "gpu_off_later = daemon_sample gpu_probe 104 104 gpu_state3"

text \<open>
  A monitor that samples a thousand times per second, built at clock reading 100, and
  the same monitor after a first fold that reads 100 again from a clock that has not yet
  ticked.
\<close>

definition coarse_monitor :: monitor where
  "coarse_monitor = init 1000 30 None 180 100 False"

definition stuck_monitor :: monitor where
  "stuck_monitor = daemon_sample example_probe 100 100 coarse_monitor"

section \<open>Evaluation and arithmetic\<close>

lemmas eval_defs = daemon_report_def daemon_sample_def update_readouts_def machine_stats_def
  host_stats_def gpu_failed_def get_average_readouts_def clear_readouts_def decide_fallback_def
  select_iteration_def report_scalars_def locals0_def init_def dict_get_def dict_set_def
  bytes_to_megabytes_def endswith_def py_int_def py_round_def Let_def

lemmas example_defs = example_probe_def example_monitor_def sampled_monitor_def

lemmas float_defs = damped_estimate_def float_of_int_def float_round_def float_exponent_def
  pow2_def bit_length.simps

section \<open>Report boundary and accumulator (C1)\<close>

text \<open>
  C1 says that every report boundary resets the accumulator, whether or not the fallback
  mode is resolved. In the source \<open>_clear_readouts\<close> is called inside the branch
  \<open>if fallback_to_sec_as_iterations is not None\<close> (line 113): in \<open>unresolved_run\<close> the
  mode is still unknown after the report, and the sums and the fold count of the fold
  before it are still there.
\<close>

theorem report_keeps_accumulator_while_unresolved:
  "\<not> isl unresolved_run
   \<and> fallback_to_sec_as_iterations (fst (projr unresolved_run)) = None
   \<and> num_readouts (snd (projr unresolved_run)) = 1
   \<and> readouts (snd (projr unresolved_run)) \<noteq> []"
  by (simp add: unresolved_run_def eval_defs example_defs)

text \<open>
  C1 as amended: a report boundary that completes resets the accumulator (no sums, fold
  count 0) when the fallback mode is resolved at the end of the boundary, and leaves the
  sums and the fold count as they were when the mode is still unknown.
\<close>

theorem report_resets_accumulator_when_resolved:
  assumes "daemon_report elapsed tb it (d, s) = Inr (d', s')"
  shows "(fallback_to_sec_as_iterations d' \<noteq> None \<longrightarrow> readouts s' = [] \<and> num_readouts s' = 0) \<and>
         (fallback_to_sec_as_iterations d' = None \<longrightarrow>
            readouts s' = readouts s \<and> num_readouts s' = num_readouts s)"
  using assms
  by (auto simp: daemon_report_def Let_def clear_readouts_def decide_fallback_def
           split: sum.splits prod.splits if_splits)

theorem report_resets_accumulator_when_resolved_witness:
  "\<not> isl (daemon_report 30 True 0 (locals0, sampled_monitor))
   \<and> readouts sampled_monitor \<noteq> []
   \<and> readouts (snd (projr (daemon_report 30 True 0 (locals0, sampled_monitor)))) = []
   \<and> num_readouts (snd (projr (daemon_report 30 True 0 (locals0, sampled_monitor)))) = 0"
  using report_resets_accumulator_when_resolved
          [of 30 True 0 locals0 sampled_monitor
              "fst (projr (daemon_report 30 True 0 (locals0, sampled_monitor)))"
              "snd (projr (daemon_report 30 True 0 (locals0, sampled_monitor)))"]
  by (simp add: eval_defs example_defs del: not_None_eq)

section \<open>The estimate for a stalled counter (C2)\<close>

text \<open>
  The estimate in double precision: for the interval (3, 19) and a stall of 20 seconds the
  products are \<open>2.8499999999999996\<close> and \<open>56.99999999999999\<close>, the quotient is
  \<open>2.9999999999999996\<close> and its integer part is 2, where exact arithmetic gives 3; the
  conversion of \<open>2^53 + 1\<close> rounds to \<open>2^53\<close>. A zero time delta and an operand beyond
  the range of a float raise.
\<close>

lemma damped_estimate_examples:
  "damped_estimate 3 20 19 = Inr 2"
  "damped_estimate 3 30 30 = Inr 2"
  "damped_estimate 3 60 30 = Inr 5"
  "damped_estimate (- 3) 20 19 = Inr (- 2)"
  "damped_estimate 9007199254740993 1 1 = Inr 8556839292003942"
  "damped_estimate 3 60 0 = Inl ZeroDivisionError"
  "damped_estimate (2 ^ 1030) 30 30 = Inl OverflowError"
  by (simp_all add: float_defs py_round_def py_int_def Let_def)

text \<open>
  C2 says that the iteration synthesized for a stalled counter stays strictly below
  \<open>last_iteration\<close> plus the iteration delta of the last interval, for every
  \<open>seconds_since_started\<close> reached during the stall; the comment of line 90 states the same
  intent (``we don't want to pass the actual next iteration''). The estimate of lines 91
  and 92 grows with the stall and is not capped. In \<open>stalled_run\<close> the interval is (3, 30)
  and the counter has stood at 3 for 60 seconds at the third report: the code reports
  \<open>3 + int(0.95 * 3 * 60 / 30) = 3 + int(5.699999999999999) = 8\<close>, beyond \<open>3 + 3\<close>.
\<close>

theorem stalled_estimate_passes_next_jump:
  "\<not> isl stalled_run
   \<and> last_iteration (fst (projr stalled_run)) = 3
   \<and> last_iteration_interval (fst (projr stalled_run)) = Some (3, 30)
   \<and> iteration (fst (projr stalled_run)) = Some 8
   \<and> \<not> (8 < (3::int) + 3)"
  by (simp add: stalled_run_def eval_defs example_defs damped_estimate_examples del: not_None_eq)

section \<open>A failed collection (C3)\<close>

text \<open>
  C3: a fold whose snapshot collection raises is abandoned with the monitor exactly as it
  was: \<open>_machine_stats\<close> raises before line 117, and nothing of the accumulator sums, the
  fold count, the previous snapshot and its timestamp has been written. The exception
  leaves \<open>_update_readouts\<close> and is swallowed by the loop.
\<close>

theorem failed_collection_leaves_state:
  assumes "fst (machine_stats p s) = Inl e"
  shows "update_readouts p t1 t2 s = (Some e, s) \<and> daemon_sample p t1 t2 s = s"
  using assms
  by (auto simp: update_readouts_def daemon_sample_def machine_stats_def
           split: sum.splits prod.splits if_splits option.splits)

theorem failed_collection_leaves_state_witness:
  "fst (machine_stats failing_probe sampled_monitor) = Inl ProviderError
   \<and> update_readouts failing_probe 102 103 sampled_monitor = (Some ProviderError, sampled_monitor)
   \<and> daemon_sample failing_probe 102 103 sampled_monitor = sampled_monitor
   \<and> num_readouts sampled_monitor = 1"
  using failed_collection_leaves_state [of failing_probe sampled_monitor ProviderError 102 103]
  by (simp add: failing_probe_def eval_defs example_defs)

section \<open>Rates of cumulative counters (C4)\<close>

lemma dict_get_set: "dict_get (dict_set k v d) k' dflt = (if k' = k then v else dict_get d k' dflt)"
  by (simp add: dict_get_def dict_set_def update_conv')

lemma dict_set_keys: "fst ` set (dict_set k v d) = insert k (fst ` set d)"
  by (simp add: dict_set_def dom_update)

lemma dict_set_distinct: "distinct (map fst d) \<Longrightarrow> distinct (map fst (dict_set k v d))"
  by (simp add: dict_set_def distinct_update)

lemma update_loop_other:
  "k \<notin> fst ` set stats \<Longrightarrow> update_loop elapsed prev stats acc = (r, acc')
   \<Longrightarrow> dict_get acc' k dflt = dict_get acc k dflt"
  by (induction elapsed prev stats acc rule: update_loop.induct)
     (auto simp: dict_get_set split: if_splits)

lemma update_loop_returns:
  "elapsed \<noteq> 0 \<Longrightarrow> fst (update_loop elapsed prev stats acc) = None"
  by (induction elapsed prev stats acc rule: update_loop.induct) auto

lemma update_loop_sum:
  "elapsed \<noteq> 0 \<Longrightarrow> distinct (map fst stats) \<Longrightarrow> (k, v) \<in> set stats
   \<Longrightarrow> update_loop elapsed prev stats acc = (r, acc')
   \<Longrightarrow> dict_get acc' k 0 =
        dict_get acc k 0 + (if endswith k ''_mbs'' then (v - dict_get prev k v) / elapsed else v)"
proof (induction elapsed prev stats acc rule: update_loop.induct)
  case (1 elapsed prev acc)
  then show ?case by simp
next
  case (2 elapsed prev k' v' rest acc)
  show ?case
  proof (cases "k' = k")
    case True
    with 2 have v: "v' = v" and notin: "k \<notin> fst ` set rest"
      by (auto simp: image_iff)
    from 2(3-) True v notin show ?thesis
      by (auto simp: dict_get_set split: if_splits dest: update_loop_other)
  next
    case False
    with 2 show ?thesis
      by (auto simp: dict_get_set split: if_splits)
  qed
qed

lemma host_stats_distinct: "host_stats p = Inr stats \<Longrightarrow> distinct (map fst stats)"
  by (auto simp: host_stats_def Let_def dict_set_distinct split: sum.splits if_splits prod.splits option.splits list.splits)

lemma gpu_loop_distinct:
  "distinct (map fst stats) \<Longrightarrow> gpu_loop i gpus stats = (r, stats') \<Longrightarrow> distinct (map fst stats')"
  by (induction i gpus stats rule: gpu_loop.induct)
     (auto simp: Let_def dict_set_distinct split: if_splits)

lemma machine_stats_distinct:
  "machine_stats p s = (Inr stats, s') \<Longrightarrow> distinct (map fst stats)"
  by (auto simp: machine_stats_def split: sum.splits if_splits prod.splits option.splits
           dest: host_stats_distinct gpu_loop_distinct)

lemma gpu_failed_fields:
  "readouts (gpu_failed s) = readouts s" "num_readouts (gpu_failed s) = num_readouts s"
  "previous_readouts (gpu_failed s) = previous_readouts s"
  "previous_readouts_ts (gpu_failed s) = previous_readouts_ts s"
  by (simp_all add: gpu_failed_def Let_def)

lemma machine_stats_fields:
  assumes "machine_stats p s = (r, s')"
  shows "readouts s' = readouts s" "num_readouts s' = num_readouts s"
    "previous_readouts s' = previous_readouts s"
    "previous_readouts_ts s' = previous_readouts_ts s"
  using assms
  by (auto simp: machine_stats_def gpu_failed_fields split: sum.splits if_splits prod.splits option.splits)

text \<open>
  C4: in a fold that passes collection with a clock reading \<open>t1\<close> different from the stored
  timestamp, every key \<open>k\<close> ending in \<open>_mbs\<close> with raw reading \<open>v\<close> adds
  \<open>(v - previous) / elapsed\<close> to its sum, where \<open>previous\<close> is the reading of \<open>k\<close> in the
  stored snapshot and \<open>elapsed = t1 - previous_readouts_ts\<close>; when the stored snapshot has
  no reading of \<open>k\<close> the value added is 0. The fold stores the raw snapshot and the clock
  reading \<open>t2\<close>, and these are the \<open>previous\<close> and the timestamp of the next fold.
\<close>

theorem cumulative_rate:
  assumes "machine_stats p s = (Inr stats, s1)"
      and "t1 \<noteq> previous_readouts_ts s"
      and "(k, v) \<in> set stats" and "endswith k ''_mbs''"
  shows "\<exists>s'. update_readouts p t1 t2 s = (None, s') \<and>
           dict_get (readouts s') k 0 =
             dict_get (readouts s) k 0 +
               (case map_of (previous_readouts s) k of
                  Some v0 \<Rightarrow> (v - v0) / (t1 - previous_readouts_ts s)
                | None \<Rightarrow> 0) \<and>
           previous_readouts s' = stats \<and> previous_readouts_ts s' = t2 \<and>
           num_readouts s' = num_readouts s + 1"
proof -
  define elapsed where "elapsed = t1 - previous_readouts_ts s"
  have nz: "elapsed \<noteq> 0"
    using assms(2) by (simp add: elapsed_def)
  note f = machine_stats_fields [OF assms(1)]
  obtain acc where loop: "update_loop elapsed (previous_readouts s) stats (readouts s) = (None, acc)"
    using update_loop_returns [OF nz, of "previous_readouts s" stats "readouts s"]
    by (cases "update_loop elapsed (previous_readouts s) stats (readouts s)") simp
  have upd: "update_readouts p t1 t2 s =
      (None, s1\<lparr>previous_readouts_ts := t2, readouts := acc,
                num_readouts := num_readouts s + 1, previous_readouts := stats\<rparr>)"
    using assms(1) loop by (simp add: update_readouts_def Let_def f elapsed_def)
  have "dict_get acc k 0 = dict_get (readouts s) k 0 + (v - dict_get (previous_readouts s) k v) / elapsed"
    using update_loop_sum [OF nz machine_stats_distinct [OF assms(1)] assms(3) loop] assms(4)
    by simp
  also have "(v - dict_get (previous_readouts s) k v) / elapsed =
      (case map_of (previous_readouts s) k of Some v0 \<Rightarrow> (v - v0) / elapsed | None \<Rightarrow> 0)"
    by (simp add: dict_get_def split: option.splits)
  finally have "dict_get acc k 0 = dict_get (readouts s) k 0 +
      (case map_of (previous_readouts s) k of Some v0 \<Rightarrow> (v - v0) / elapsed | None \<Rightarrow> 0)" .
  with upd show ?thesis
    unfolding elapsed_def by simp
qed

theorem cumulative_rate_witness:
  "fst (machine_stats later_probe sampled_monitor) = Inr later_stats
   \<and> (103::real) \<noteq> previous_readouts_ts sampled_monitor
   \<and> (''network_tx_mbs'', 3) \<in> set later_stats
   \<and> endswith ''network_tx_mbs'' ''_mbs''
   \<and> map_of (previous_readouts sampled_monitor) ''network_tx_mbs'' = Some 1
   \<and> previous_readouts_ts sampled_monitor = 101
   \<and> dict_get (readouts sampled_monitor) ''network_tx_mbs'' 0 = 0
   \<and> dict_get (readouts (snd (update_readouts later_probe 103 104 sampled_monitor)))
         ''network_tx_mbs'' 0 = 1"
  using cumulative_rate [of later_probe sampled_monitor later_stats sampled_monitor
                            103 "''network_tx_mbs''" 3 104]
  by (simp add: eval_defs example_defs later_probe_def later_stats_def)

section \<open>The fallback mode is frozen (C5)\<close>

lemma daemon_append:
  "daemon (xs @ ys) ds = (case daemon xs ds of Inl e \<Rightarrow> Inl e | Inr ds' \<Rightarrow> daemon ys ds')"
  by (induction xs arbitrary: ds) (auto split: sum.splits)

lemma daemon_samples_locals:
  "daemon (samples folds) (d, s) = Inr (d', s') \<Longrightarrow> d' = d"
  by (induction folds arbitrary: s) (auto simp: samples_def)

lemma daemon_samples_returns: "\<exists>s'. daemon (samples folds) (d, s) = Inr (d, s')"
  by (induction folds arbitrary: s) (auto simp: samples_def)

lemma report_seconds_mode:
  assumes "daemon_report e tb it (d, s) = Inr (d', s')"
      and "fallback_to_sec_as_iterations d = Some True"
  shows "fallback_to_sec_as_iterations d' = Some True"
    and "seconds_since_started d' = seconds_since_started d + py_round e"
    and "iteration d' = Some (seconds_since_started d')"
  using assms
  by (auto simp: daemon_report_def Let_def decide_fallback_def select_iteration_def
           split: sum.splits prod.splits if_splits)

lemma report_activates_seconds_mode:
  assumes "daemon_report e tb it (d, s) = Inr (d', s')"
      and "fallback_to_sec_as_iterations d' = Some True"
  shows "iteration d' = Some (seconds_since_started d')"
  using assms
  by (auto simp: daemon_report_def Let_def decide_fallback_def select_iteration_def
           split: sum.splits prod.splits if_splits option.splits)

lemma report_external_mode:
  assumes "daemon_report e tb it (d, s) = Inr (d', s')"
      and "fallback_to_sec_as_iterations d = Some False"
  shows "fallback_to_sec_as_iterations d' = Some False"
  using assms
  by (auto simp: daemon_report_def Let_def decide_fallback_def select_iteration_def
           split: sum.splits prod.splits if_splits option.splits)

lemma daemon_step_mode:
  assumes "daemon_step ev (d, s) = Inr (d', s')"
      and "fallback_to_sec_as_iterations d = Some b"
  shows "fallback_to_sec_as_iterations d' = Some b"
  using assms
  by (cases ev; cases b) (auto dest: report_seconds_mode(1) report_external_mode)

lemma daemon_mode:
  "daemon evs (d, s) = Inr (d', s') \<Longrightarrow> fallback_to_sec_as_iterations d = Some b
   \<Longrightarrow> fallback_to_sec_as_iterations d' = Some b"
proof (induction evs arbitrary: d s)
  case Nil
  then show ?case by simp
next
  case (Cons ev evs)
  then obtain d1 s1 where st: "daemon_step ev (d, s) = Inr (d1, s1)"
    and rest: "daemon evs (d1, s1) = Inr (d', s')"
    by (auto split: sum.splits)
  from daemon_step_mode [OF st Cons.prems(2)] Cons.IH [OF rest] show ?case
    by simp
qed

text \<open>
  C5: let the thread run on from the state after a report boundary \<open>b1\<close> through any events
  and then through a report boundary \<open>b2\<close>. If seconds mode is active after \<open>b1\<close> then
  it is still active before and after \<open>b2\<close> and the iteration of \<open>b2\<close> is
  \<open>seconds_since_started\<close>; if external mode is active after \<open>b1\<close> then external mode, not
  seconds mode, is active before and after \<open>b2\<close>.
\<close>

theorem fallback_mode_frozen:
  assumes "daemon evs (d1, s1) = Inr (d2, s2)"
      and "daemon_report e tb it (d2, s2) = Inr (d3, s3)"
  shows "(fallback_to_sec_as_iterations d1 = Some True \<longrightarrow>
            fallback_to_sec_as_iterations d2 = Some True \<and>
            fallback_to_sec_as_iterations d3 = Some True \<and>
            iteration d3 = Some (seconds_since_started d3)) \<and>
         (fallback_to_sec_as_iterations d1 = Some False \<longrightarrow>
            fallback_to_sec_as_iterations d2 = Some False \<and>
            fallback_to_sec_as_iterations d3 = Some False)"
  using daemon_mode [OF assms(1)] report_seconds_mode [OF assms(2)] report_external_mode [OF assms(2)]
  by simp

theorem fallback_mode_frozen_witness:
  "fallback_to_sec_as_iterations (fst seconds_state) = Some True
   \<and> daemon [Sample example_probe 281 281, Report 30 False 7] seconds_state = Inr seconds_later
   \<and> daemon_report 30 True 9 seconds_later = Inr seconds_last
   \<and> fallback_to_sec_as_iterations (fst seconds_later) = Some True
   \<and> fallback_to_sec_as_iterations (fst seconds_last) = Some True
   \<and> iteration (fst seconds_last) = Some 240"
  using fallback_mode_frozen [of "[Sample example_probe 281 281, Report 30 False 7]"
                   "fst seconds_state" "snd seconds_state" "fst seconds_later" "snd seconds_later"
                   30 True 9 "fst seconds_last" "snd seconds_last"]
  by (simp add: seconds_state_def seconds_later_def seconds_last_def eval_defs example_defs del: not_None_eq)


section \<open>Iterations in seconds mode (C6)\<close>

lemma py_round_pos: "(0 < py_round x) = (1 / 2 < x)"
proof -
  define f where "f = \<lfloor>x\<rfloor>"
  have lo: "real_of_int f \<le> x" and hi: "x < real_of_int f + 1"
    by (simp_all add: f_def)
  have r: "py_round x =
      (if x - real_of_int f < 1 / 2 then f
       else if 1 / 2 < x - real_of_int f then f + 1
       else if even f then f else f + 1)"
    by (simp add: py_round_def Let_def f_def)
  consider "f \<le> - 1" | "f = 0" | "1 \<le> f"
    by linarith
  then show ?thesis
  proof cases
    case 1
    then have "real_of_int f \<le> - 1"
      by (metis of_int_le_iff of_int_minus of_int_1)
    with 1 hi show ?thesis
      unfolding r by (auto split: if_splits)
  next
    case 2
    with lo hi show ?thesis
      unfolding r by (auto split: if_splits)
  next
    case 3
    then have "1 \<le> real_of_int f"
      by (metis of_int_le_iff of_int_1)
    with 3 lo show ?thesis
      unfolding r by (auto split: if_splits)
  qed
qed

text \<open>
  C6 says that in seconds mode the reported iteration is strictly greater at every
  boundary than at the one before. The step is \<open>int(round(elapsed))\<close>, which is 0 for a
  window shorter than half a second: \<open>subsecond_monitor\<close> reports every 0.4 seconds, and
  its first two reports both carry iteration 0.
\<close>

theorem seconds_iteration_can_repeat:
  "\<not> isl subsecond_run1 \<and> \<not> isl subsecond_run2
   \<and> fallback_to_sec_as_iterations (fst (projr subsecond_run1)) = Some True
   \<and> iteration (fst (projr subsecond_run1)) = Some 0
   \<and> iteration (fst (projr subsecond_run2)) = Some 0
   \<and> report_frequency subsecond_monitor \<le> 2 / 5"
  by (simp add: subsecond_run1_def subsecond_run2_def subsecond_monitor_def eval_defs example_defs del: not_None_eq)


text \<open>
  C6 as amended: when seconds mode is active after a report boundary, the iteration of the
  next boundary is the iteration of this one plus \<open>int(round(elapsed))\<close>, where \<open>elapsed\<close>
  is the wall time of the window that ends at the next boundary; it is strictly greater
  exactly when \<open>elapsed\<close> is more than half a second.
\<close>

theorem seconds_iteration_step:
  assumes "daemon_report e1 tb1 x1 (d0, s0) = Inr (d1, s1)"
      and "fallback_to_sec_as_iterations d1 = Some True"
      and "daemon (samples folds @ [Report e2 tb2 x2]) (d1, s1) = Inr (d2, s2)"
  shows "\<exists>i1. iteration d1 = Some i1 \<and> iteration d2 = Some (i1 + py_round e2) \<and>
              (i1 < i1 + py_round e2 \<longleftrightarrow> 1 / 2 < e2)"
proof -
  obtain s1' where mid: "daemon (samples folds) (d1, s1) = Inr (d1, s1')"
    using daemon_samples_returns by blast
  with assms(3) have rep: "daemon_report e2 tb2 x2 (d1, s1') = Inr (d2, s2)"
    by (simp add: daemon_append split: sum.splits)
  have "iteration d1 = Some (seconds_since_started d1)"
    using report_activates_seconds_mode [OF assms(1,2)] .
  moreover have "iteration d2 = Some (seconds_since_started d1 + py_round e2)"
    using report_seconds_mode(2,3) [OF rep assms(2)] by simp
  ultimately show ?thesis
    by (simp add: py_round_pos)
qed

theorem seconds_iteration_step_witness:
  "daemon_report 180 False 0 (locals0, example_monitor) = Inr seconds_state
   \<and> fallback_to_sec_as_iterations (fst seconds_state) = Some True
   \<and> daemon (samples [(example_probe, 281, 281)] @ [Report 30 False 7]) seconds_state = Inr seconds_later
   \<and> iteration (fst seconds_state) = Some 180
   \<and> iteration (fst seconds_later) = Some 210"
  using seconds_iteration_step [of 180 False 0 locals0 example_monitor "fst seconds_state" "snd seconds_state"
                   "[(example_probe, 281, 281)]" 30 False 7 "fst seconds_later" "snd seconds_later"]
  by (simp add: seconds_state_def seconds_later_def samples_def eval_defs example_defs del: not_None_eq)

section \<open>Accelerator failures (C7, C10)\<close>

lemma host_stats_keys_eq:
  assumes "host_stats p = Inr stats"
  shows "fst ` set stats =
           {''io_write_mbs'', ''io_read_mbs'', ''network_rx_mbs'', ''network_tx_mbs'',
            ''disk_free_percent'', ''memory_free_gb'', ''memory_used_gb'', ''cpu_usage''}
       \<or> fst ` set stats =
           {''io_write_mbs'', ''io_read_mbs'', ''network_rx_mbs'', ''network_tx_mbs'',
            ''cpu_temperature'',
            ''disk_free_percent'', ''memory_free_gb'', ''memory_used_gb'', ''cpu_usage''}"
  using assms unfolding host_stats_def Let_def
  by (clarsimp simp: dict_set_keys
           split: sum.split_asm if_split_asm prod.split_asm option.split_asm list.split_asm)

lemma host_stats_keys:
  assumes "host_stats p = Inr stats"
  shows "{''cpu_usage'', ''memory_used_gb'', ''memory_free_gb'', ''disk_free_percent'',
          ''network_tx_mbs'', ''network_rx_mbs'', ''io_read_mbs'', ''io_write_mbs''}
           \<subseteq> fst ` set stats"
    and "fst ` set stats \<subseteq>
         {''cpu_usage'', ''memory_used_gb'', ''memory_free_gb'', ''disk_free_percent'',
          ''cpu_temperature'',
          ''network_tx_mbs'', ''network_rx_mbs'', ''io_read_mbs'', ''io_write_mbs''}"
  using host_stats_keys_eq [OF assms] by (elim disjE; simp)+

lemma host_stats_no_gpu:
  assumes "host_stats p = Inr stats" and "k \<in> fst ` set stats"
  shows "\<not> startswith k ''gpu_''"
proof -
  from host_stats_keys(2) [OF assms(1)] assms(2)
  have "k \<in> {''cpu_usage'', ''memory_used_gb'', ''memory_free_gb'', ''disk_free_percent'',
          ''cpu_temperature'',
          ''network_tx_mbs'', ''network_rx_mbs'', ''io_read_mbs'', ''io_write_mbs''}"
    by blast
  then show ?thesis
    by auto
qed


lemma machine_stats_gpu_off:
  assumes "\<not> gpustat s"
  shows "snd (machine_stats p s) = s"
    and "fst (machine_stats p s) = host_stats p"
  using assms by (auto simp: machine_stats_def split: sum.splits)

lemma gpu_failed_inv:
  "(3 \<le> gpustat_fail s \<longrightarrow> \<not> gpustat s) \<Longrightarrow>
   3 \<le> gpustat_fail (gpu_failed s) \<longrightarrow> \<not> gpustat (gpu_failed s)"
  by (simp add: gpu_failed_def Let_def)

lemma gpu_failed_off: "\<not> gpustat s \<Longrightarrow> \<not> gpustat (gpu_failed s)"
  by (simp add: gpu_failed_def Let_def)

lemma machine_stats_inv:
  assumes "3 \<le> gpustat_fail s \<longrightarrow> \<not> gpustat s"
  shows "3 \<le> gpustat_fail (snd (machine_stats p s)) \<longrightarrow> \<not> gpustat (snd (machine_stats p s))"
  using assms gpu_failed_inv [of s]
  by (auto simp: machine_stats_def split: sum.splits prod.splits option.splits)

lemma update_readouts_gpu:
  "gpustat (snd (update_readouts p t1 t2 s)) = gpustat (snd (machine_stats p s))"
  "gpustat_fail (snd (update_readouts p t1 t2 s)) = gpustat_fail (snd (machine_stats p s))"
  by (auto simp: update_readouts_def Let_def split: sum.splits prod.splits option.splits)

lemma daemon_report_gpu:
  assumes "daemon_report e tb it (d, s) = Inr (d', s')"
  shows "gpustat s' = gpustat s" and "gpustat_fail s' = gpustat_fail s"
  using assms
  by (auto simp: daemon_report_def Let_def decide_fallback_def clear_readouts_def
           split: sum.splits prod.splits if_splits)

lemma daemon_step_inv:
  assumes "daemon_step ev (d, s) = Inr (d', s')"
      and "3 \<le> gpustat_fail s \<longrightarrow> \<not> gpustat s"
  shows "3 \<le> gpustat_fail s' \<longrightarrow> \<not> gpustat s'"
proof (cases ev)
  case (Sample p t1 t2)
  with assms(1) have "s' = snd (update_readouts p t1 t2 s)"
    by (simp add: daemon_sample_def)
  with machine_stats_inv [OF assms(2), of p] show ?thesis
    by (simp add: update_readouts_gpu)
next
  case (Report e tb it)
  with assms(1) have "daemon_report e tb it (d, s) = Inr (d', s')"
    by simp
  from daemon_report_gpu [OF this] assms(2) show ?thesis
    by simp
qed

lemma daemon_step_off:
  assumes "daemon_step ev (d, s) = Inr (d', s')" and "\<not> gpustat s"
  shows "\<not> gpustat s'"
proof (cases ev)
  case (Sample p t1 t2)
  with assms(1) have "s' = snd (update_readouts p t1 t2 s)"
    by (simp add: daemon_sample_def)
  with machine_stats_gpu_off(1) [OF assms(2), of p] assms(2) show ?thesis
    by (simp add: update_readouts_gpu)
next
  case (Report e tb it)
  with assms(1) have "daemon_report e tb it (d, s) = Inr (d', s')"
    by simp
  from daemon_report_gpu [OF this] assms(2) show ?thesis
    by simp
qed

lemma daemon_inv:
  "daemon evs (d, s) = Inr (d', s') \<Longrightarrow> (3 \<le> gpustat_fail s \<longrightarrow> \<not> gpustat s)
   \<Longrightarrow> 3 \<le> gpustat_fail s' \<longrightarrow> \<not> gpustat s'"
proof (induction evs arbitrary: d s)
  case Nil
  then show ?case by simp
next
  case (Cons ev evs)
  then obtain d1 s1 where st: "daemon_step ev (d, s) = Inr (d1, s1)"
    and rest: "daemon evs (d1, s1) = Inr (d', s')"
    by (auto split: sum.splits)
  from Cons.IH [OF rest daemon_step_inv [OF st Cons.prems(2)]] show ?case .
qed

lemma daemon_off:
  "daemon evs (d, s) = Inr (d', s') \<Longrightarrow> \<not> gpustat s \<Longrightarrow> \<not> gpustat s'"
proof (induction evs arbitrary: d s)
  case Nil
  then show ?case by simp
next
  case (Cons ev evs)
  then obtain d1 s1 where st: "daemon_step ev (d, s) = Inr (d1, s1)"
    and rest: "daemon evs (d1, s1) = Inr (d', s')"
    by (auto split: sum.splits)
  from Cons.IH [OF rest daemon_step_off [OF st Cons.prems(2)]] show ?case .
qed

lemma sample_gpu_failure:
  assumes "gpustat s" and "host_stats p = Inr hs" and "new_query p = Inl e"
  shows "gpustat_fail (daemon_sample p t1 t2 s) = gpustat_fail s + 1"
    and "gpustat (daemon_sample p t1 t2 s) = (gpustat_fail s + 1 < 3)"
  using assms
  by (auto simp: daemon_sample_def update_readouts_gpu machine_stats_def gpu_failed_def Let_def)

lemma example_host_stats:
  "host_stats example_probe = Inr example_stats" "host_stats gpu_probe = Inr example_stats"
  by (simp_all add: host_stats_def example_probe_def gpu_probe_def example_stats_def Let_def
                    dict_set_def bytes_to_megabytes_def)

text \<open>
  C7: take any state the thread reaches from a fresh monitor in which the failure counter
  is 3 or more, and any state it reaches from there. GPU monitoring is off in that state,
  a snapshot taken there has no key that starts with \<open>gpu_\<close>, whatever the GPU query
  would answer, and monitoring is still off after the snapshot.
\<close>

theorem gpu_disabled_for_good:
  assumes "daemon evs1 (locals0, init sf rf fr w now g) = Inr (d1, s1)"
      and "3 \<le> gpustat_fail s1"
      and "daemon evs2 (d1, s1) = Inr (d2, s2)"
  shows "\<not> gpustat s2 \<and> \<not> gpustat (snd (machine_stats p s2)) \<and>
         (\<forall>stats. fst (machine_stats p s2) = Inr stats \<longrightarrow>
            (\<forall>k \<in> fst ` set stats. \<not> startswith k ''gpu_''))"
proof -
  have "3 \<le> gpustat_fail (init sf rf fr w now g) \<longrightarrow> \<not> gpustat (init sf rf fr w now g)"
    by (simp add: init_def)
  from daemon_inv [OF assms(1) this] assms(2) have "\<not> gpustat s1"
    by simp
  from daemon_off [OF assms(3) this] have off: "\<not> gpustat s2" .
  from machine_stats_gpu_off [OF off, of p] off host_stats_no_gpu [of p] show ?thesis
    by auto
qed

theorem gpu_disabled_for_good_witness:
  "daemon [Sample example_probe 101 101, Sample example_probe 102 102, Sample example_probe 103 103]
      (locals0, init 2 30 None 180 100 True) = Inr (locals0, gpu_state3)
   \<and> gpustat_fail gpu_state3 = 3
   \<and> daemon [Sample gpu_probe 104 104] (locals0, gpu_state3) = Inr (locals0, gpu_off_later)
   \<and> \<not> gpustat gpu_off_later
   \<and> fst (machine_stats gpu_probe gpu_off_later) = Inr example_stats
   \<and> (''gpu_0_temperature'', 60) \<in> set (projr (fst (machine_stats gpu_probe gpu_monitor)))"
proof -
  have q: "new_query example_probe = Inl ProviderError"
    by (simp add: example_probe_def)
  have g0: "gpustat gpu_monitor" "gpustat_fail gpu_monitor = 0"
    by (simp_all add: gpu_monitor_def init_def)
  have g1: "gpustat gpu_state1" "gpustat_fail gpu_state1 = 1"
    unfolding gpu_state1_def
    using sample_gpu_failure [OF g0(1) example_host_stats(1) q] g0(2) by simp_all
  have g2: "gpustat gpu_state2" "gpustat_fail gpu_state2 = 2"
    unfolding gpu_state2_def
    using sample_gpu_failure [OF g1(1) example_host_stats(1) q] g1(2) by simp_all
  have g3: "gpustat_fail gpu_state3 = 3"
    unfolding gpu_state3_def
    using sample_gpu_failure(1) [OF g2(1) example_host_stats(1) q] g2(2) by simp
  have run1: "daemon [Sample example_probe 101 101, Sample example_probe 102 102,
                      Sample example_probe 103 103] (locals0, init 2 30 None 180 100 True)
              = Inr (locals0, gpu_state3)"
    by (simp add: gpu_state3_def gpu_state2_def gpu_state1_def gpu_monitor_def)
  have run2: "daemon [Sample gpu_probe 104 104] (locals0, gpu_state3) = Inr (locals0, gpu_off_later)"
    by (simp add: gpu_off_later_def)
  have sane: "(''gpu_0_temperature'', 60) \<in> set (projr (fst (machine_stats gpu_probe gpu_monitor)))"
    by (simp add: gpu_monitor_def gpu_probe_def gpu_key_def str_nat.simps eval_defs example_defs)
  have g3': "3 \<le> gpustat_fail gpu_state3"
    using g3 by simp
  from gpu_disabled_for_good [OF run1 g3' run2, of gpu_probe]
  have off: "\<not> gpustat gpu_off_later"
    by simp
  from machine_stats_gpu_off(2) [OF off, of gpu_probe] example_host_stats(2)
  have "fst (machine_stats gpu_probe gpu_off_later) = Inr example_stats"
    by simp
  with run1 g3 run2 off sane show ?thesis
    by simp
qed

text \<open>
  C10: when GPU monitoring is on, the host providers answer and the GPU query raises,
  \<open>_machine_stats\<close> returns the host snapshot: it holds the CPU usage, the used and free
  memory, the free disk percentage, the network and the disk counters, and no key that
  starts with \<open>gpu_\<close>. The failure is counted in the monitor.
\<close>

theorem gpu_failure_keeps_host_stats:
  assumes "gpustat s" and "host_stats p = Inr stats" and "new_query p = Inl e"
  shows "machine_stats p s = (Inr stats, gpu_failed s) \<and>
         {''cpu_usage'', ''memory_used_gb'', ''memory_free_gb'', ''disk_free_percent'',
          ''network_tx_mbs'', ''network_rx_mbs'', ''io_read_mbs'', ''io_write_mbs''}
           \<subseteq> fst ` set stats \<and>
         (\<forall>k \<in> fst ` set stats. \<not> startswith k ''gpu_'')"
  using assms host_stats_keys(1) [OF assms(2)] host_stats_no_gpu [OF assms(2)]
  by (simp add: machine_stats_def)




theorem gpu_failure_keeps_host_stats_witness:
  "gpustat gpu_monitor
   \<and> host_stats example_probe = Inr example_stats
   \<and> new_query example_probe = Inl ProviderError
   \<and> machine_stats example_probe gpu_monitor = (Inr example_stats, gpu_failed gpu_monitor)
   \<and> gpustat_fail (gpu_failed gpu_monitor) = 1"
  using gpu_failure_keeps_host_stats [of gpu_monitor example_probe example_stats ProviderError]
  by (simp add: gpu_monitor_def example_stats_def eval_defs example_defs)

section \<open>A fold that fails after collection (C9)\<close>

lemma dict_set_nonempty: "dict_set k v d \<noteq> []"
  by (cases d) (simp_all add: dict_set_def)

lemma update_loop_nonempty:
  "update_loop elapsed prev stats acc = (r, acc') \<Longrightarrow> acc \<noteq> [] \<Longrightarrow> acc' \<noteq> []"
  by (induction elapsed prev stats acc rule: update_loop.induct)
     (auto simp: dict_set_nonempty split: if_splits)

lemma update_loop_fills:
  "update_loop elapsed prev stats acc = (None, acc') \<Longrightarrow> stats \<noteq> [] \<Longrightarrow> acc' \<noteq> []"
  by (cases stats)
     (auto simp: dict_set_nonempty split: if_splits
           dest: update_loop_nonempty [OF _ dict_set_nonempty])

lemma gpu_loop_nonempty:
  "gpu_loop i gpus stats = (r, stats') \<Longrightarrow> stats \<noteq> [] \<Longrightarrow> stats' \<noteq> []"
  by (induction i gpus stats rule: gpu_loop.induct)
     (auto simp: Let_def dict_set_nonempty split: if_splits)

lemma host_stats_nonempty: "host_stats p = Inr stats \<Longrightarrow> stats \<noteq> []"
  using host_stats_keys(1) [of p stats] by auto

lemma machine_stats_nonempty: "machine_stats p s = (Inr stats, s') \<Longrightarrow> stats \<noteq> []"
  by (auto simp: machine_stats_def split: sum.splits if_splits prod.splits option.splits
           dest: host_stats_nonempty gpu_loop_nonempty)

lemma machine_stats_raises:
  "fst (machine_stats p s) = Inl e \<Longrightarrow> snd (machine_stats p s) = s"
  by (auto simp: machine_stats_def split: sum.splits if_splits prod.splits option.splits)

lemma sample_keeps_accumulator_invariant:
  assumes "(readouts s = []) = (num_readouts s = 0)"
      and "t1 \<noteq> previous_readouts_ts s"
  shows "(readouts (daemon_sample p t1 t2 s) = []) = (num_readouts (daemon_sample p t1 t2 s) = 0)"
proof (cases "machine_stats p s")
  case (Pair r s1)
  note f = machine_stats_fields [OF Pair]
  show ?thesis
  proof (cases r)
    case (Inl e)
    with Pair machine_stats_raises [of p s e] have "daemon_sample p t1 t2 s = s"
      by (simp add: daemon_sample_def update_readouts_def)
    with assms(1) show ?thesis by simp
  next
    case (Inr stats)
    define elapsed where "elapsed = t1 - previous_readouts_ts s"
    have nz: "elapsed \<noteq> 0"
      using assms(2) by (simp add: elapsed_def)
    obtain acc where loop: "update_loop elapsed (previous_readouts s) stats (readouts s) = (None, acc)"
      using update_loop_returns [OF nz, of "previous_readouts s" stats "readouts s"]
      by (cases "update_loop elapsed (previous_readouts s) stats (readouts s)") simp
    have "acc \<noteq> []"
      using update_loop_fills [OF loop] machine_stats_nonempty Pair Inr by blast
    moreover have "daemon_sample p t1 t2 s =
        s1\<lparr>previous_readouts_ts := t2, readouts := acc,
            num_readouts := num_readouts s + 1, previous_readouts := stats\<rparr>"
      using Pair Inr loop by (simp add: daemon_sample_def update_readouts_def Let_def f elapsed_def)
    ultimately show ?thesis by simp
  qed
qed

lemma report_keeps_accumulator_invariant:
  assumes "daemon_report e tb it (d, s) = Inr (d', s')"
      and "(readouts s = []) = (num_readouts s = 0)"
  shows "(readouts s' = []) = (num_readouts s' = 0)"
  using assms
  by (auto simp: daemon_report_def Let_def clear_readouts_def decide_fallback_def
           split: sum.splits prod.splits if_splits)


text \<open>
  C9 says that the fold count is zero exactly when the accumulator is empty, so that the
  division of \<open>_get_average_readouts\<close> never has a zero divisor. A fold whose clock reading
  equals the stored timestamp raises in line 122 at the first key ending in \<open>_mbs\<close>, after
  line 124 has written the sums of the keys before it and before line 125 counts the
  fold: in \<open>stuck_monitor\<close> four sums are present, the fold count is 0, and
  \<open>_get_average_readouts\<close> divides by zero. (The two lemmas above show that the invariant
  is kept by every fold with another clock reading and by every report.)
\<close>

theorem partial_fold_breaks_accumulator:
  "fst (update_readouts example_probe 100 100 coarse_monitor) = Some ZeroDivisionError
   \<and> num_readouts stuck_monitor = 0
   \<and> readouts stuck_monitor =
        [(''cpu_usage'', 20), (''memory_used_gb'', 2), (''memory_free_gb'', 1),
         (''disk_free_percent'', 60)]
   \<and> get_average_readouts stuck_monitor = Inl ZeroDivisionError"
  by (simp add: stuck_monitor_def coarse_monitor_def eval_defs example_defs)

section \<open>Averages at a report boundary (C8)\<close>

lemma average_readouts_value:
  assumes "get_average_readouts s = Inr average_readouts"
  shows "average_readouts = map (\<lambda>(k, v). (k, v / real (num_readouts s))) (readouts s)"
  using assms by (auto simp: get_average_readouts_def split: if_splits)

lemma report_emits_averages:
  assumes "daemon_report e tb it (d, s) = Inr (d', s')"
  shows "scalars s' = scalars s @
           (if fallback_to_sec_as_iterations d' = None then []
            else map (\<lambda>(k, v). (if startswith k ''gpu_'' then title_gpu else title_machine, k,
                                  the (iteration d'),
                                  of_int (py_round (v / real (num_readouts s) * 1000)) / 1000))
                     (readouts s))"
  using assms
  by (auto simp: daemon_report_def Let_def clear_readouts_def decide_fallback_def
                 report_scalars_def get_average_readouts_def
           split: sum.splits prod.splits if_splits)

lemma report_without_folds:
  assumes "daemon_report e tb it (d, s) = Inr (d', s')"
      and "num_readouts s = 0" and "readouts s = []"
  shows "scalars s' = scalars s \<and> readouts s' = [] \<and> num_readouts s' = 0"
  using report_emits_averages [OF assms(1)] report_keeps_accumulator_invariant [OF assms(1)] assms
  by (auto simp: daemon_report_def Let_def clear_readouts_def decide_fallback_def
           split: sum.splits prod.splits if_splits)

text \<open>
  C8 says that a report boundary with fold count 0 emits nothing and leaves the
  accumulator reset. The lemmas above show the averages that are emitted and that a
  boundary with no sums and fold count 0 emits nothing. After the fold of \<open>stuck_monitor\<close>,
  which failed past collection, the fold count is 0 with sums present: the report raises
  \<open>ZeroDivisionError\<close> in \<open>_get_average_readouts\<close>, outside any handler, and the thread
  ends without resetting the accumulator.
\<close>

theorem report_after_partial_fold_raises:
  "num_readouts stuck_monitor = 0
   \<and> daemon_report 30 True 0 (locals0, stuck_monitor) = Inl ZeroDivisionError
   \<and> daemon [Sample example_probe 100 100, Report 30 True 0] (locals0, coarse_monitor)
       = Inl ZeroDivisionError"
  by (simp add: stuck_monitor_def coarse_monitor_def eval_defs example_defs)

end
